theory Spec2Isabelle
  imports Complex_Main "HOL-Library.AList" "HOL-Library.Product_Lexorder"
begin

section \<open>JavaScript values used by the engine\<close>

text \<open>
  JavaScript numbers are modelled by the reals, with the three non-finite values of the
  language written out where the code can produce them (a division by zero, arithmetic on
  a value that is not a number). Rounding of IEEE doubles is not modelled.
\<close>

datatype jsnum = Num real | PosInfinity | NegInfinity | NaN

text \<open>\<^verbatim>\<open>a / b\<close> for finite operands: a zero divisor gives an infinity or NaN.\<close>

definition js_div :: "real \<Rightarrow> real \<Rightarrow> jsnum" where
  "js_div a b =
     (if b \<noteq> 0 then Num (a / b)
      else if 0 < a then PosInfinity
      else if a < 0 then NegInfinity
      else NaN)"

text \<open>\<^verbatim>\<open>a * c\<close> for a possibly non-finite \<open>a\<close> and a finite positive constant \<open>c\<close>.\<close>

fun js_times_pos :: "jsnum \<Rightarrow> real \<Rightarrow> jsnum" where
  "js_times_pos (Num a) c = Num (a * c)"
| "js_times_pos PosInfinity c = PosInfinity"
| "js_times_pos NegInfinity c = NegInfinity"
| "js_times_pos NaN c = NaN"

subsection \<open>Property reads on object literals\<close>

text \<open>
  \<^verbatim>\<open>table[key]\<close> on an object literal finds the table's own keys first and then the
  members of \<^verbatim>\<open>Object.prototype\<close>. Those members are functions (for \<^verbatim>\<open>__proto__\<close>
  the prototype object itself): truthy values that are not numbers and that have none of
  the properties the engine reads. A key found nowhere reads as \<^verbatim>\<open>undefined\<close>.
\<close>

definition object_prototype_members :: "string list" where
  "object_prototype_members =
     [''constructor'', ''__defineGetter__'', ''__defineSetter__'', ''hasOwnProperty'',
      ''__lookupGetter__'', ''__lookupSetter__'', ''isPrototypeOf'',
      ''propertyIsEnumerable'', ''toString'', ''valueOf'', ''__proto__'',
      ''toLocaleString'']"

datatype 'a property = Own 'a | Inherited | Absent

definition get_property :: "(string \<rightharpoonup> 'a) \<Rightarrow> string \<Rightarrow> 'a property" where
  "get_property table key =
     (case table key of
        Some v \<Rightarrow> Own v
      | None \<Rightarrow> if key \<in> set object_prototype_members then Inherited else Absent)"

section \<open>Scorer (semantic-weight)\<close>

record scorer_event =
  ev_type :: string

text \<open>The literal table \<^verbatim>\<open>weights\<close> of \<^verbatim>\<open>scoreEvent\<close>.\<close>

definition weights :: "(string \<times> real) list" where
  "weights =
     [(''parameterChange'', 10), (''goingConcern'', 10), (''firstOfType'', 10),
      (''governanceVote'', 9), (''insiderAction'', 9),
      (''liquidationTrigger'', 7), (''oracleUpdate'', 6), (''largeTx'', 3),
      (''routineTx'', 1), (''spam'', 0)]"

text \<open>\<^verbatim>\<open>x || d\<close> on an optional number: \<^verbatim>\<open>undefined\<close> and \<open>0\<close> are both falsy.\<close>

definition or_default :: "real option \<Rightarrow> real \<Rightarrow> real" where
  "or_default x d = (case x of None \<Rightarrow> d | Some v \<Rightarrow> if v = 0 then d else v)"

text \<open>
  What \<^verbatim>\<open>weights[event.type] || 0\<close> evaluates to: a number, or the member of
  \<^verbatim>\<open>Object.prototype\<close> that the event's type names.
\<close>

datatype score = Score real | Member

definition scoreEvent :: "scorer_event \<Rightarrow> score" where
  "scoreEvent event =
     (case get_property (map_of weights) (ev_type event) of
        Own w \<Rightarrow> Score (or_default (Some w) 0)
      | Absent \<Rightarrow> Score 0
      | Inherited \<Rightarrow> Member)"

record cascade =
  semanticWeight :: score
  cascadePotential :: jsnum
  priority :: string

text \<open>
  \<^verbatim>\<open>Math.pow\<close> of a function or of the prototype object is NaN, and comparing it with
  7 is false.
\<close>

definition calculateCascade :: "scorer_event \<Rightarrow> cascade" where
  "calculateCascade event =
     (case scoreEvent event of
        Score score \<Rightarrow>
          \<lparr>semanticWeight = Score score,
           cascadePotential = Num (score ^ 2),
           priority = (if 7 \<le> score then ''URGENT'' else ''MONITOR'')\<rparr>
      | Member \<Rightarrow>
          \<lparr>semanticWeight = Member, cascadePotential = NaN, priority = ''MONITOR''\<rparr>)"

text \<open>The weight the table assigns to a category; a category outside the table has weight 0.\<close>

definition table_weight :: "string \<Rightarrow> real" where
  "table_weight category = (case map_of weights category of None \<Rightarrow> 0 | Some w \<Rightarrow> w)"

section \<open>Semantic router (semantic-router.js)\<close>

record signal =
  sig_type :: string
  weight :: real
  sig_cascadePotential :: "real option"
  sig_txHash :: "string option"
  sig_id :: "string option"

record route =
  chains :: "string list"
  strategies :: "string list"
  minProfit :: real
  urgency :: string

record chain_config =
  rpc :: string
  chainId :: nat
  blockTime :: real
  mevStrategies :: "string list"

record opportunity =
  opp_chain :: string
  opp_signal :: signal
  expectedProfit :: real
  opp_strategies :: "string list"
  opp_urgency :: string

text \<open>
  The object a strategy returns. The object built in the \<^verbatim>\<open>catch\<close> block has no
  \<^verbatim>\<open>txHash\<close> and no \<^verbatim>\<open>gasUsed\<close>; a successful one has no \<^verbatim>\<open>error\<close>.
\<close>

record exec_result =
  success :: bool
  profit :: real
  txHash :: "string option"
  gasUsed :: "real option"
  error :: "string option"

record attribution =
  attr_signalId :: "string option"
  attr_signalType :: string
  attr_timestamp :: nat
  attr_profit :: real
  attr_txHash :: "string option"
  attr_gasUsed :: "real option"

text \<open>
  The fields of a \<^verbatim>\<open>SemanticRouter\<close>. The two \<^verbatim>\<open>Map\<close>s keep their entries in
  insertion order, so they are association lists updated with \<^const>\<open>AList.update\<close>
  (\<^verbatim>\<open>Map.prototype.set\<close>: an existing key keeps its place, a new key goes last).
  \<open>emitted\<close> collects the payloads of \<^verbatim>\<open>this.emit('attribution', ...)\<close>.
\<close>

record router =
  router_chains :: "string \<rightharpoonup> chain_config"
  signalRoutes :: "string \<rightharpoonup> route"
  attributionMap :: "(string option \<times> attribution) list"
  profitsBySignal :: "(string \<times> real) list"
  emitted :: "attribution list"

text \<open>The constructor, with the RPC environment variables unset.\<close>

definition constructor_chains :: "(string \<times> chain_config) list" where
  "constructor_chains =
     [(''ethereum'', \<lparr>rpc = ''https://eth-mainnet.g.alchemy.com/v2/demo'', chainId = 1,
         blockTime = 12, mevStrategies = [''liquidation'', ''sandwich'', ''arbitrage'']\<rparr>),
      (''arbitrum'', \<lparr>rpc = ''https://arb1.arbitrum.io/rpc'', chainId = 42161,
         blockTime = 0.25, mevStrategies = [''fastLiquidation'', ''crossDexArb'']\<rparr>),
      (''base'', \<lparr>rpc = ''https://mainnet.base.org'', chainId = 8453,
         blockTime = 2, mevStrategies = [''signalBroadcast'', ''attribution'']\<rparr>),
      (''polygon'', \<lparr>rpc = ''https://polygon-rpc.com'', chainId = 137,
         blockTime = 2, mevStrategies = [''microLiquidation'', ''yieldFarm'']\<rparr>)]"

definition constructor_routes :: "(string \<times> route) list" where
  "constructor_routes =
     [(''CRITICAL_PARAMETER_CHANGE'',
        \<lparr>chains = [''ethereum''], strategies = [''liquidation'', ''positionExit''],
         minProfit = 0.1, urgency = ''immediate''\<rparr>),
      (''LIQUIDATION_THRESHOLD_BREACH'',
        \<lparr>chains = [''ethereum'', ''arbitrum''], strategies = [''liquidation'', ''flashloan''],
         minProfit = 0.05, urgency = ''immediate''\<rparr>),
      (''CROSS_CHAIN_YIELD_DELTA'',
        \<lparr>chains = [''ethereum'', ''arbitrum'', ''polygon''],
         strategies = [''bridgeArbitrage'', ''yieldCapture''],
         minProfit = 0.02, urgency = ''fast''\<rparr>),
      (''ORACLE_PRICE_DEVIATION'',
        \<lparr>chains = [''ethereum'', ''arbitrum''], strategies = [''oracleArbitrage'', ''sandwich''],
         minProfit = 0.03, urgency = ''immediate''\<rparr>),
      (''BANKRUPTCY_FILING_DETECTED'',
        \<lparr>chains = [''ethereum''], strategies = [''massLiquidation'', ''shortPosition''],
         minProfit = 1.0, urgency = ''medium''\<rparr>),
      (''REGULATORY_ACTION_PENDING'',
        \<lparr>chains = [''ethereum'', ''arbitrum''], strategies = [''positionExit'', ''hedgeSetup''],
         minProfit = 0.5, urgency = ''medium''\<rparr>),
      (''MEV_OPPORTUNITY_SURFACE'',
        \<lparr>chains = [''ethereum'', ''arbitrum''], strategies = [''sandwich'', ''backrun''],
         minProfit = 0.01, urgency = ''immediate''\<rparr>),
      (''FLASHLOAN_ARBITRAGE_GAP'',
        \<lparr>chains = [''ethereum'', ''arbitrum'', ''polygon''],
         strategies = [''flashloan'', ''multiDexArb''],
         minProfit = 0.02, urgency = ''immediate''\<rparr>)]"

definition new_router :: router where
  "new_router =
     \<lparr>router_chains = map_of constructor_chains,
      signalRoutes = map_of constructor_routes,
      attributionMap = [],
      profitsBySignal = [],
      emitted = []\<rparr>"

subsection \<open>calculateExpectedProfit\<close>

definition chainModifiers :: "(string \<times> real) list" where
  "chainModifiers =
     [(''ethereum'', 1.0), (''arbitrum'', 0.7), (''polygon'', 0.5), (''base'', 0.3)]"

definition strategyProfits :: "(string \<times> real) list" where
  "strategyProfits =
     [(''liquidation'', 0.08), (''sandwich'', 0.02), (''arbitrage'', 0.015),
      (''flashloan'', 0.025), (''massLiquidation'', 0.15), (''bridgeArbitrage'', 0.01),
      (''oracleArbitrage'', 0.03), (''positionExit'', 0.05)]"

text \<open>
  \<^verbatim>\<open>strategyProfits[strategy] || 0.01\<close> as a number: \<open>None\<close> when it is a member of
  \<^verbatim>\<open>Object.prototype\<close>, which \<^verbatim>\<open>Math.max\<close> turns into NaN.
\<close>

definition strategyProfit :: "string \<Rightarrow> real option" where
  "strategyProfit strategy =
     (case get_property (map_of strategyProfits) strategy of
        Own v \<Rightarrow> Some (or_default (Some v) 0.01)
      | Absent \<Rightarrow> Some 0.01
      | Inherited \<Rightarrow> None)"

text \<open>\<^verbatim>\<open>Math.max\<close> of two arguments, \<open>None\<close> standing for NaN.\<close>

definition js_max :: "real option \<Rightarrow> real option \<Rightarrow> real option" where
  "js_max a b = (case (a, b) of (Some x, Some y) \<Rightarrow> Some (max x y) | _ \<Rightarrow> None)"

text \<open>The loop over \<^verbatim>\<open>route.strategies\<close>, started at \<^verbatim>\<open>maxStrategyProfit = 0\<close>.\<close>

definition maxStrategyProfit :: "string list \<Rightarrow> real option" where
  "maxStrategyProfit strats =
     foldl (\<lambda>m strategy. js_max m (strategyProfit strategy)) (Some 0) strats"

text \<open>
  The result \<open>None\<close> is NaN: a chain name that is not a key of \<^verbatim>\<open>chainModifiers\<close>
  reads as \<^verbatim>\<open>undefined\<close> or as a function, and the product with either is NaN, as is
  the product with a NaN maximum. Every other result is a finite number.
\<close>

definition calculateExpectedProfit :: "signal \<Rightarrow> string \<Rightarrow> route \<Rightarrow> real option" where
  "calculateExpectedProfit signal chainName route =
     (let baseProfit = weight signal / 10;
          cascadeMultiplier = 1 + or_default (sig_cascadePotential signal) 0 / 100
      in case get_property (map_of chainModifiers) chainName of
           Own chainModifier \<Rightarrow>
             (case maxStrategyProfit (strategies route) of
                Some m \<Rightarrow> Some (baseProfit * chainModifier * m * cascadeMultiplier)
              | None \<Rightarrow> None)
         | Inherited \<Rightarrow> None
         | Absent \<Rightarrow> None)"

subsection \<open>executeStrategy\<close>

text \<open>
  What a \<^verbatim>\<open>throw\<close> or a rejected promise carries: a value whose \<^verbatim>\<open>message\<close>
  property can be read (an error with its message, or any other value, whose
  \<^verbatim>\<open>message\<close> is \<^verbatim>\<open>undefined\<close>), or \<^verbatim>\<open>null\<close>, or \<^verbatim>\<open>undefined\<close>.
\<close>

datatype thrown = Thrown "string option" | ThrownNull | ThrownUndefined

text \<open>
  The four strategy methods and the inline default branch draw from \<^verbatim>\<open>Math.random\<close>
  and stand for calls to an external venue, so they are parameters of the model: a
  strategy takes the opportunity and the provider (identified by the URL it is built
  from, \<open>None\<close> for \<^verbatim>\<open>undefined\<close>) and either throws or returns its result.
  \<open>random_profit\<close>, \<open>random_hex\<close> and \<open>random_gas\<close> are the three draws of the default
  branch, the second one already rendered in base 16.
\<close>

type_synonym strategy = "opportunity \<Rightarrow> string option \<Rightarrow> thrown + exec_result"

record environment =
  executeLiquidation :: strategy
  executeSandwich :: strategy
  executeFlashLoan :: strategy
  executeMassLiquidation :: strategy
  random_profit :: real
  random_hex :: string
  random_gas :: real

text \<open>The \<^verbatim>\<open>switch\<close> on \<^verbatim>\<open>opportunity.strategies[0]\<close>, inside the \<^verbatim>\<open>try\<close> block.\<close>

definition simulateStrategy :: "environment \<Rightarrow> opportunity \<Rightarrow> exec_result" where
  "simulateStrategy env opportunity =
     \<lparr>success = True,
      profit = expectedProfit opportunity * (0.8 + random_profit env * 0.4),
      txHash = Some (''0x'' @ random_hex env),
      gasUsed = Some (200000 + of_int \<lfloor>random_gas env * 300000\<rfloor>),
      error = None\<rparr>"

definition invokeStrategy ::
  "environment \<Rightarrow> opportunity \<Rightarrow> string option \<Rightarrow> thrown + exec_result" where
  "invokeStrategy env opportunity provider =
     (case opp_strategies opportunity of
        [] \<Rightarrow> Inr (simulateStrategy env opportunity)
      | primary # _ \<Rightarrow>
          if primary = ''liquidation'' then executeLiquidation env opportunity provider
          else if primary = ''sandwich'' then executeSandwich env opportunity provider
          else if primary = ''flashloan'' then executeFlashLoan env opportunity provider
          else if primary = ''massLiquidation'' then executeMassLiquidation env opportunity provider
          else Inr (simulateStrategy env opportunity))"

text \<open>
  \<open>Inl\<close> is an exception that leaves \<^verbatim>\<open>executeStrategy\<close>. The provider is built from
  \<^verbatim>\<open>this.chains[opportunity.chain].rpc\<close> before the \<^verbatim>\<open>try\<close> block: a TypeError for
  a chain name found nowhere, and the URL \<^verbatim>\<open>undefined\<close> for one that names a member of
  \<^verbatim>\<open>Object.prototype\<close>; building the provider itself is taken not to throw. What is
  thrown inside the \<^verbatim>\<open>try\<close> block is caught, and the \<^verbatim>\<open>catch\<close> block reads
  \<^verbatim>\<open>error.message\<close>, which is a TypeError of its own when the caught value is
  \<^verbatim>\<open>null\<close> or \<^verbatim>\<open>undefined\<close>.
\<close>

definition executeStrategy :: "environment \<Rightarrow> router \<Rightarrow> opportunity \<Rightarrow> thrown + exec_result" where
  "executeStrategy env r opportunity =
     (case get_property (router_chains r) (opp_chain opportunity) of
        Absent \<Rightarrow>
          Inl (Thrown (Some ''TypeError: Cannot read properties of undefined (reading 'rpc')''))
      | found \<Rightarrow>
          (case invokeStrategy env opportunity
                  (case found of Own cfg \<Rightarrow> Some (rpc cfg) | _ \<Rightarrow> None) of
             Inr result \<Rightarrow> Inr result
           | Inl (Thrown message) \<Rightarrow>
               Inr \<lparr>success = False, profit = 0, txHash = None, gasUsed = None,
                    error = message\<rparr>
           | Inl ThrownNull \<Rightarrow>
               Inl (Thrown (Some
                 ''TypeError: Cannot read properties of null (reading 'message')''))
           | Inl ThrownUndefined \<Rightarrow>
               Inl (Thrown (Some
                 ''TypeError: Cannot read properties of undefined (reading 'message')''))))"

subsection \<open>trackAttribution\<close>

text \<open>\<^verbatim>\<open>signal.txHash || signal.id\<close>: an empty string is falsy as well.\<close>

definition signal_ref :: "signal \<Rightarrow> string option" where
  "signal_ref signal =
     (case sig_txHash signal of
        None \<Rightarrow> sig_id signal
      | Some h \<Rightarrow> if h = [] then sig_id signal else Some h)"

definition trackAttribution :: "nat \<Rightarrow> router \<Rightarrow> signal \<Rightarrow> exec_result \<Rightarrow> router" where
  "trackAttribution now r signal result =
     (if \<not> success result then r
      else
        let attribution =
              \<lparr>attr_signalId = signal_ref signal,
               attr_signalType = sig_type signal,
               attr_timestamp = now,
               attr_profit = profit result,
               attr_txHash = txHash result,
               attr_gasUsed = gasUsed result\<rparr>;
            currentProfit = or_default (map_of (profitsBySignal r) (sig_type signal)) 0
        in r\<lparr>attributionMap := AList.update (txHash result) attribution (attributionMap r),
             profitsBySignal :=
               AList.update (sig_type signal) (currentProfit + profit result) (profitsBySignal r),
             emitted := emitted r @ [attribution]\<rparr>)"

subsection \<open>routeSignal\<close>

text \<open>
  The loop over \<^verbatim>\<open>route.chains\<close> that fills \<^verbatim>\<open>opportunities\<close>. The test
  \<^verbatim>\<open>expectedProfit >= route.minProfit\<close> is false for NaN.
\<close>

fun findOpportunities :: "signal \<Rightarrow> route \<Rightarrow> string list \<Rightarrow> opportunity list" where
  "findOpportunities signal route [] = []"
| "findOpportunities signal route (chainName # rest) =
     (case calculateExpectedProfit signal chainName route of
        None \<Rightarrow> findOpportunities signal route rest
      | Some p \<Rightarrow>
          if minProfit route \<le> p
          then \<lparr>opp_chain = chainName, opp_signal = signal, expectedProfit = p,
                opp_strategies = strategies route, opp_urgency = urgency route\<rparr>
               # findOpportunities signal route rest
          else findOpportunities signal route rest)"

text \<open>
  \<^verbatim>\<open>opportunities.sort((a, b) => b.expectedProfit - a.expectedProfit)\<close>: the sort of
  the language is stable, and so is \<^const>\<open>sort_key\<close>.
\<close>

definition rankOpportunities :: "opportunity list \<Rightarrow> opportunity list" where
  "rankOpportunities opportunities = sort_key (\<lambda>opp. - expectedProfit opp) opportunities"

text \<open>
  The result is \<open>Inl\<close> for an exception, otherwise the returned value (\<open>None\<close> for
  \<^verbatim>\<open>null\<close>) and the router after the call. \<open>now\<close> is the reading of \<^verbatim>\<open>Date.now()\<close>.
  A signal type that names a member of \<^verbatim>\<open>Object.prototype\<close> passes the guard
  \<^verbatim>\<open>if (!route)\<close>, and \<^verbatim>\<open>route.chains.join\<close> then reads \<^verbatim>\<open>join\<close> of
  \<^verbatim>\<open>undefined\<close>.
\<close>

definition routeSignal ::
  "environment \<Rightarrow> nat \<Rightarrow> router \<Rightarrow> signal \<Rightarrow> thrown + (exec_result option \<times> router)" where
  "routeSignal env now r signal =
     (case get_property (signalRoutes r) (sig_type signal) of
        Absent \<Rightarrow> Inr (None, r)
      | Inherited \<Rightarrow>
          Inl (Thrown (Some ''TypeError: Cannot read properties of undefined (reading 'join')''))
      | Own route \<Rightarrow>
          (case rankOpportunities (findOpportunities signal route (chains route)) of
             [] \<Rightarrow> Inr (None, r)
           | best # _ \<Rightarrow>
               (case executeStrategy env r best of
                  Inl exn \<Rightarrow> Inl exn
                | Inr result \<Rightarrow> Inr (Some result, trackAttribution now r signal result))))"

subsection \<open>The estimator and the selector as the specification words them\<close>

text \<open>
  The configured profit rate of a strategy, with the default 0.01 for a strategy the table
  does not list.
\<close>

definition strategy_rate :: "string \<Rightarrow> real" where
  "strategy_rate strategy =
     (case map_of strategyProfits strategy of None \<Rightarrow> 0.01 | Some r \<Rightarrow> r)"

text \<open>The cascade potential of a signal; a signal that carries none counts as 0.\<close>

definition signal_cascade :: "signal \<Rightarrow> real" where
  "signal_cascade signal = (case sig_cascadePotential signal of None \<Rightarrow> 0 | Some c \<Rightarrow> c)"

text \<open>A venue qualifies when its expected profit is a number not below \<open>minProfit\<close>.\<close>

definition qualifies :: "signal \<Rightarrow> route \<Rightarrow> string \<Rightarrow> bool" where
  "qualifies signal route chainName =
     (case calculateExpectedProfit signal chainName route of
        None \<Rightarrow> False
      | Some p \<Rightarrow> minProfit route \<le> p)"

text \<open>
  The ranking of the specification: expected profit descending, ties broken by urgency
  (immediate before fast before medium), remaining ties by the order of declaration, which
  a stable sort keeps. Pairs are compared lexicographically.
\<close>

definition urgency_rank :: "string \<Rightarrow> nat" where
  "urgency_rank u =
     (if u = ''immediate'' then 0 else if u = ''fast'' then 1
      else if u = ''medium'' then 2 else 3)"

definition spec_rank :: "opportunity list \<Rightarrow> opportunity list" where
  "spec_rank opportunities =
     sort_key (\<lambda>opp. (- expectedProfit opp, urgency_rank (opp_urgency opp))) opportunities"

subsection \<open>Concrete inputs\<close>

text \<open>The signal routed when the file is run directly, and the route the constructor gives it.\<close>

definition testSignal :: signal where
  "testSignal = \<lparr>sig_type = ''LIQUIDATION_THRESHOLD_BREACH'', weight = 9.5,
                  sig_cascadePotential = Some 85, sig_txHash = None, sig_id = None\<rparr>"

definition liquidation_route :: route where
  "liquidation_route =
     \<lparr>chains = [''ethereum'', ''arbitrum''], strategies = [''liquidation'', ''flashloan''],
      minProfit = 0.05, urgency = ''immediate''\<rparr>"

definition venue_opportunity :: "string \<Rightarrow> real \<Rightarrow> opportunity" where
  "venue_opportunity chainName p =
     \<lparr>opp_chain = chainName, opp_signal = testSignal, expectedProfit = p,
      opp_strategies = [''liquidation'', ''flashloan''], opp_urgency = ''immediate''\<rparr>"

definition ethereum_rpc :: string where
  "ethereum_rpc = ''https://eth-mainnet.g.alchemy.com/v2/demo''"

definition unknownSignal :: signal where
  "unknownSignal = \<lparr>sig_type = ''UNKNOWN'', weight = 5, sig_cascadePotential = Some 25,
                     sig_txHash = None, sig_id = None\<rparr>"

text \<open>A signal whose type names a member of \<^verbatim>\<open>Object.prototype\<close>.\<close>

definition constructorSignal :: signal where
  "constructorSignal = \<lparr>sig_type = ''constructor'', weight = 5,
                         sig_cascadePotential = Some 25, sig_txHash = None, sig_id = None\<rparr>"

text \<open>An environment in which every venue call fails with an error.\<close>

definition failing_env :: environment where
  "failing_env =
     \<lparr>executeLiquidation = (\<lambda>opportunity provider. Inl (Thrown (Some ''execution reverted''))),
      executeSandwich = (\<lambda>opportunity provider. Inl (Thrown (Some ''execution reverted''))),
      executeFlashLoan = (\<lambda>opportunity provider. Inl (Thrown (Some ''execution reverted''))),
      executeMassLiquidation = (\<lambda>opportunity provider. Inl (Thrown (Some ''execution reverted''))),
      random_profit = 0.5, random_hex = ''8f3a'', random_gas = 0.5\<rparr>"

text \<open>
  An environment in which the liquidation on the test signal succeeds: four positions
  (\<open>\<lfloor>85 / 20\<rfloor>\<close>), 150000 gas each.
\<close>

definition demo_result :: exec_result where
  "demo_result = \<lparr>success = True, profit = 12.5, txHash = Some ''0x3f9c2a'',
                   gasUsed = Some 600000, error = None\<rparr>"

definition demo_env :: environment where
  "demo_env = failing_env\<lparr>executeLiquidation := (\<lambda>opportunity provider. Inr demo_result)\<rparr>"


definition failed_result :: exec_result where
  "failed_result = \<lparr>success = False, profit = 0, txHash = None, gasUsed = None,
                     error = Some ''execution reverted''\<rparr>"

text \<open>The record \<^verbatim>\<open>trackAttribution\<close> builds for a signal and a result.\<close>

definition attribution_of :: "nat \<Rightarrow> signal \<Rightarrow> exec_result \<Rightarrow> attribution" where
  "attribution_of now signal result =
     \<lparr>attr_signalId = signal_ref signal,
      attr_signalType = sig_type signal,
      attr_timestamp = now,
      attr_profit = profit result,
      attr_txHash = txHash result,
      attr_gasUsed = gasUsed result\<rparr>"

section \<open>Causal attribution ledger (causal-attribution.js)\<close>

text \<open>
  The value of a numeric property as JavaScript and JSON see it: absent (\<^verbatim>\<open>undefined\<close>),
  \<^verbatim>\<open>null\<close>, or a number.
\<close>

datatype jsvalue = Undefined | Null | Number jsnum

text \<open>
  What \<^verbatim>\<open>JSON.parse(JSON.stringify(v))\<close> gives back: a finite number is written and read
  back as it is, an absent property stays absent, and \<^verbatim>\<open>JSON.stringify\<close> writes
  \<^verbatim>\<open>null\<close> for NaN and for the infinities.
\<close>

fun json_value :: "jsvalue \<Rightarrow> jsvalue" where
  "json_value Undefined = Undefined"
| "json_value Null = Null"
| "json_value (Number (Num x)) = Number (Num x)"
| "json_value (Number PosInfinity) = Null"
| "json_value (Number NegInfinity) = Null"
| "json_value (Number NaN) = Null"

text \<open>The \<^verbatim>\<open>semanticSource\<close> a signal is tagged with, kept as the chain's \<open>origin\<close>.\<close>

record semantic_source =
  src_type :: string
  src_source :: "string option"
  src_weight :: real
  src_anchor :: "string option"

record jam_attribution =
  ja_signalId :: string
  ja_semanticWeight :: real
  ja_sourceType :: string
  ja_timestamp :: nat
  ja_causalAnchor :: "string option"
  ja_expectedCascade :: real

text \<open>
  \<^verbatim>\<open>{...jamData, attribution: {...}}\<close>: the properties of \<open>jamData\<close> (strings here),
  with \<open>attribution\<close> replaced.
\<close>

record tagged_jam =
  jam_data :: "(string \<times> string) list"
  jam_attribution :: jam_attribution

text \<open>
  A property of a stored object: it holds a value, or it is there with the value
  \<^verbatim>\<open>undefined\<close>, or the object has no such property.
\<close>

datatype 'a field = Defined 'a | UndefinedField | MissingField

text \<open>
  The object pushed by \<^verbatim>\<open>recordEvent\<close> always has a \<^verbatim>\<open>txHash\<close> property, with the
  value \<^verbatim>\<open>undefined\<close> when the event data carries none.
\<close>

record chain_event =
  ce_timestamp :: nat
  ce_type :: string
  ce_txHash :: "string field"
  ce_gasUsed :: real
  ce_response :: "string option"

datatype status = BROADCASTED | TRIGGERED | PROFITABLE | COMPLETED

record causal_chain =
  origin :: semantic_source
  jam :: tagged_jam
  events :: "chain_event list"
  chain_profit :: real
  status :: status
  semanticROI :: jsvalue

record event_data =
  ed_type :: string
  ed_txHash :: "string option"
  ed_gasUsed :: "real option"
  ed_response :: "string option"

record profit_data =
  pd_txHash :: string
  pd_amountETH :: real
  pd_gasSpent :: "real option"
  pd_type :: "string option"

record profit_entry =
  pe_signalId :: string
  pe_txHash :: string
  pe_amountETH :: real
  pe_gasSpent :: real
  pe_netProfit :: real
  pe_timestamp :: nat
  pe_liquidationType :: string

text \<open>The object written to the file at \<^verbatim>\<open>dbPath\<close>.\<close>

record persisted =
  db_chains :: "(string \<times> causal_chain) list"
  db_profits :: "(string \<times> profit_entry) list"
  db_timestamp :: nat

text \<open>
  The two \<^verbatim>\<open>Map\<close>s of a \<^verbatim>\<open>CausalAttribution\<close>, in insertion order, and the content of
  the file at \<^verbatim>\<open>dbPath\<close> (\<open>None\<close>: there is no file).
\<close>

record ledger =
  ledger_chains :: "(string \<times> causal_chain) list"
  ledger_profits :: "(string \<times> profit_entry) list"
  db_file :: "persisted option"

definition new_ledger :: ledger where
  "new_ledger = \<lparr>ledger_chains = [], ledger_profits = [], db_file = None\<rparr>"

text \<open>\<^verbatim>\<open>s || null\<close> on an optional string: the empty string is falsy.\<close>

definition or_null :: "string option \<Rightarrow> string option" where
  "or_null s = (case s of None \<Rightarrow> None | Some v \<Rightarrow> if v = [] then None else Some v)"

subsection \<open>tagJAM\<close>

text \<open>
  \<open>signalId\<close> is the outcome of \<^verbatim>\<open>generateSignalId\<close> (a hash prefix and a random nonce),
  \<open>now\<close> the reading of \<^verbatim>\<open>Date.now()\<close>.
\<close>

definition tagJAM ::
  "string \<Rightarrow> nat \<Rightarrow> ledger \<Rightarrow> (string \<times> string) list \<Rightarrow> semantic_source
     \<Rightarrow> tagged_jam \<times> ledger" where
  "tagJAM signalId now l jamData semanticSource =
     (let taggedJAM =
            \<lparr>jam_data = AList.delete ''attribution'' jamData,
             jam_attribution =
               \<lparr>ja_signalId = signalId,
                ja_semanticWeight = src_weight semanticSource,
                ja_sourceType = src_type semanticSource,
                ja_timestamp = now,
                ja_causalAnchor = or_null (src_anchor semanticSource),
                ja_expectedCascade = (src_weight semanticSource) ^ 2\<rparr>\<rparr>
      in (taggedJAM,
          l\<lparr>ledger_chains :=
               AList.update signalId
                 \<lparr>origin = semanticSource, jam = taggedJAM, events = [], chain_profit = 0,
                  status = BROADCASTED, semanticROI = Undefined\<rparr>
                 (ledger_chains l)\<rparr>))"

subsection \<open>recordEvent\<close>

definition recordEvent :: "nat \<Rightarrow> ledger \<Rightarrow> string \<Rightarrow> event_data \<Rightarrow> ledger" where
  "recordEvent now l signalId eventData =
     (case map_of (ledger_chains l) signalId of
        None \<Rightarrow> l
      | Some chain \<Rightarrow>
          let pushed = chain\<lparr>events := events chain @
                [\<lparr>ce_timestamp = now,
                  ce_type = ed_type eventData,
                  ce_txHash =
                    (case ed_txHash eventData of
                       None \<Rightarrow> UndefinedField | Some h \<Rightarrow> Defined h),
                  ce_gasUsed = or_default (ed_gasUsed eventData) 0,
                  ce_response = or_null (ed_response eventData)\<rparr>]\<rparr>;
              updated =
                (if ed_type eventData = ''BOT_RESPONSE'' then pushed\<lparr>status := TRIGGERED\<rparr>
                 else if ed_type eventData = ''LIQUIDATION_EXECUTED''
                   then pushed\<lparr>status := PROFITABLE\<rparr>
                 else pushed)
          in l\<lparr>ledger_chains := AList.update signalId updated (ledger_chains l)\<rparr>)"

subsection \<open>saveToDatabase and loadFromDatabase\<close>

text \<open>
  What \<^verbatim>\<open>JSON.parse(JSON.stringify(chain))\<close> gives back: \<^verbatim>\<open>JSON.stringify\<close> leaves
  out a property whose value is \<^verbatim>\<open>undefined\<close> and writes \<^verbatim>\<open>null\<close> for a number
  that is not finite.
\<close>

definition json_event :: "chain_event \<Rightarrow> chain_event" where
  "json_event event =
     event\<lparr>ce_txHash :=
             (case ce_txHash event of UndefinedField \<Rightarrow> MissingField | kept \<Rightarrow> kept)\<rparr>"

definition json_chain :: "causal_chain \<Rightarrow> causal_chain" where
  "json_chain chain =
     chain\<lparr>events := map json_event (events chain),
           semanticROI := json_value (semanticROI chain)\<rparr>"

text \<open>
  \<open>writable\<close> tells whether \<^verbatim>\<open>fs.writeFile\<close> succeeds; when it does not, the promise is
  rejected (\<open>Inl\<close>) and the file is as before. The file holds the entries as
  \<^verbatim>\<open>JSON.stringify\<close> writes them.
\<close>

definition saveToDatabase :: "nat \<Rightarrow> bool \<Rightarrow> ledger \<Rightarrow> (string + unit) \<times> ledger" where
  "saveToDatabase now writable l =
     (let data = \<lparr>db_chains = map (\<lambda>(k, chain). (k, json_chain chain)) (ledger_chains l),
                  db_profits = ledger_profits l,
                  db_timestamp = now\<rparr>
      in if writable then (Inr (), l\<lparr>db_file := Some data\<rparr>)
         else (Inl ''EACCES: permission denied'', l))"

text \<open>\<^verbatim>\<open>new Map(entries)\<close>: the entries are set one after the other.\<close>

definition new_Map :: "('k \<times> 'v) list \<Rightarrow> ('k \<times> 'v) list" where
  "new_Map entries = foldl (\<lambda>m (k, v). AList.update k v m) [] entries"

text \<open>A missing file is caught: the ledger keeps what it has.\<close>

definition loadFromDatabase :: "ledger \<Rightarrow> ledger" where
  "loadFromDatabase l =
     (case db_file l of
        None \<Rightarrow> l
      | Some parsed \<Rightarrow>
          l\<lparr>ledger_chains := new_Map (db_chains parsed),
            ledger_profits := new_Map (db_profits parsed)\<rparr>)"

subsection \<open>recordProfit\<close>

record profit_report =
  pr_signalId :: string
  pr_profit :: real
  pr_semanticROI :: jsnum
  pr_cascadeMultiplier :: real

text \<open>
  \<open>now\<close> is the timestamp of the profit entry, \<open>saved_at\<close> the one of the snapshot. The
  outcome is \<open>Inr None\<close> for the bare \<^verbatim>\<open>return\<close>, \<open>Inr (Some report)\<close> for the returned
  object and \<open>Inl\<close> when the write is rejected, which happens after the chain and the
  profits map have been changed.
\<close>

definition recordProfit ::
  "nat \<Rightarrow> nat \<Rightarrow> bool \<Rightarrow> ledger \<Rightarrow> string \<Rightarrow> profit_data
     \<Rightarrow> (string + profit_report option) \<times> ledger" where
  "recordProfit now saved_at writable l signalId profitData =
     (case map_of (ledger_chains l) signalId of
        None \<Rightarrow> (Inr None, l)
      | Some chain \<Rightarrow>
          let profit =
                \<lparr>pe_signalId = signalId,
                 pe_txHash = pd_txHash profitData,
                 pe_amountETH = pd_amountETH profitData,
                 pe_gasSpent = or_default (pd_gasSpent profitData) 0,
                 pe_netProfit = pd_amountETH profitData - or_default (pd_gasSpent profitData) 0,
                 pe_timestamp = now,
                 pe_liquidationType =
                   (case or_null (pd_type profitData) of None \<Rightarrow> ''UNKNOWN'' | Some t \<Rightarrow> t)\<rparr>;
              semanticROI =
                js_times_pos (js_div (pe_netProfit profit) (src_weight (origin chain))) 100;
              updated = chain\<lparr>chain_profit := chain_profit chain + pe_netProfit profit,
                              status := COMPLETED,
                              semanticROI := Number semanticROI\<rparr>;
              l' = l\<lparr>ledger_chains := AList.update signalId updated (ledger_chains l),
                     ledger_profits :=
                       AList.update (pd_txHash profitData) profit (ledger_profits l)\<rparr>
          in case saveToDatabase saved_at writable l' of
               (Inl exn, l'') \<Rightarrow> (Inl exn, l'')
             | (Inr _, l'') \<Rightarrow>
                 (Inr (Some \<lparr>pr_signalId = signalId,
                             pr_profit = pe_netProfit profit,
                             pr_semanticROI = semanticROI,
                             pr_cascadeMultiplier = pe_netProfit profit / 0.02\<rparr>), l''))"

subsection \<open>Sequences of calls\<close>

datatype ledger_call =
    RecordEvent nat string event_data
  | RecordProfit nat nat bool string profit_data

fun apply_call :: "ledger \<Rightarrow> ledger_call \<Rightarrow> ledger" where
  "apply_call l (RecordEvent now signalId eventData) = recordEvent now l signalId eventData"
| "apply_call l (RecordProfit now saved_at writable signalId profitData) =
     snd (recordProfit now saved_at writable l signalId profitData)"

definition run_calls :: "ledger \<Rightarrow> ledger_call list \<Rightarrow> ledger" where
  "run_calls l calls = foldl apply_call l calls"

definition status_of :: "ledger \<Rightarrow> string \<Rightarrow> status option" where
  "status_of l signalId = map_option status (map_of (ledger_chains l) signalId)"

definition profit_of :: "ledger \<Rightarrow> string \<Rightarrow> real option" where
  "profit_of l signalId = map_option chain_profit (map_of (ledger_chains l) signalId)"

text \<open>
  The order of the specification on the states the code uses:
  Broadcasted, then Triggered, then Profitable, then Completed.
\<close>

fun status_rank :: "status \<Rightarrow> nat" where
  "status_rank BROADCASTED = 0"
| "status_rank TRIGGERED = 1"
| "status_rank PROFITABLE = 2"
| "status_rank COMPLETED = 3"

text \<open>\<^verbatim>\<open>profitData.amountETH - (profitData.gasSpent || 0)\<close>.\<close>

definition net_profit :: "profit_data \<Rightarrow> real" where
  "net_profit profitData = pd_amountETH profitData - or_default (pd_gasSpent profitData) 0"

subsection \<open>Concrete ledgers\<close>

text \<open>The signal of the demo at the end of the file, tagged on a new ledger.\<close>

definition example_source :: semantic_source where
  "example_source =
     \<lparr>src_type = ''parameterChange'', src_source = Some ''MakerDAO stability fee increase'',
      src_weight = 10, src_anchor = Some ''0xabc123...''\<rparr>"

definition example_ledger :: ledger where
  "example_ledger =
     snd (tagJAM ''SIG-1'' 1000 new_ledger
            [(''type'', ''LIQUIDATION_ALERT''), (''data'', ''...'')] example_source)"

definition example_chain :: causal_chain where
  "example_chain =
     \<lparr>origin = example_source,
      jam = \<lparr>jam_data = [(''type'', ''LIQUIDATION_ALERT''), (''data'', ''...'')],
             jam_attribution =
               \<lparr>ja_signalId = ''SIG-1'', ja_semanticWeight = 10,
                ja_sourceType = ''parameterChange'', ja_timestamp = 1000,
                ja_causalAnchor = Some ''0xabc123...'', ja_expectedCascade = 100\<rparr>\<rparr>,
      events = [],
      chain_profit = 0,
      status = BROADCASTED,
      semanticROI = Undefined\<rparr>"

definition example_profit :: profit_data where
  "example_profit =
     \<lparr>pd_txHash = ''0xfeed'', pd_amountETH = 0.5, pd_gasSpent = Some 0.1, pd_type = None\<rparr>"

definition bot_response :: event_data where
  "bot_response =
     \<lparr>ed_type = ''BOT_RESPONSE'', ed_txHash = Some ''0xb07'', ed_gasUsed = None,
      ed_response = None\<rparr>"

text \<open>
  A signal of the category the scorer weighs 0, tagged on a new ledger, and a profit
  recorded for it.
\<close>

definition spam_source :: semantic_source where
  "spam_source =
     \<lparr>src_type = ''spam'', src_source = None, src_weight = 0, src_anchor = None\<rparr>"

definition spam_ledger :: ledger where
  "spam_ledger =
     snd (recordProfit 2000 2001 True
            (snd (tagJAM ''SIG-0'' 1000 new_ledger [] spam_source)) ''SIG-0'' example_profit)"

definition spam_chain :: causal_chain where
  "spam_chain =
     \<lparr>origin = spam_source,
      jam = \<lparr>jam_data = [],
             jam_attribution =
               \<lparr>ja_signalId = ''SIG-0'', ja_semanticWeight = 0, ja_sourceType = ''spam'',
                ja_timestamp = 1000, ja_causalAnchor = None, ja_expectedCascade = 0\<rparr>\<rparr>,
      events = [],
      chain_profit = 0.4,
      status = COMPLETED,
      semanticROI = Number PosInfinity\<rparr>"

section \<open>Scorer: properties\<close>

lemma scoreEvent_table:
  assumes "ev_type event \<notin> set object_prototype_members"
  shows "scoreEvent event = Score (table_weight (ev_type event))"
  using assms
  by (simp add: scoreEvent_def get_property_def table_weight_def or_default_def
      split: option.splits)

text \<open>
  For an event whose type is not the name of a member of \<^verbatim>\<open>Object.prototype\<close>, the
  result is the table weight (0 outside the table), its square, and the priority by the
  threshold 7.
\<close>

lemma calculateCascade_table:
  assumes "ev_type event \<notin> set object_prototype_members"
  shows "calculateCascade event =
           \<lparr>semanticWeight = Score (table_weight (ev_type event)),
            cascadePotential = Num ((table_weight (ev_type event)) ^ 2),
            priority = (if 7 \<le> table_weight (ev_type event) then ''URGENT'' else ''MONITOR'')\<rparr>"
  by (simp add: calculateCascade_def scoreEvent_table [OF assms])

lemma calculateCascade_parameterChange:
  "calculateCascade \<lparr>ev_type = ''parameterChange''\<rparr>
     = \<lparr>semanticWeight = Score 10, cascadePotential = Num 100, priority = ''URGENT''\<rparr>"
proof -
  have m: "ev_type \<lparr>ev_type = ''parameterChange''\<rparr> \<notin> set object_prototype_members"
    by (simp add: object_prototype_members_def)
  have t: "table_weight ''parameterChange'' = 10"
    by (simp add: table_weight_def weights_def)
  show ?thesis
    using calculateCascade_table [OF m] t by simp
qed

text \<open>
  Claim C9 at an event the code can receive. The type \<^verbatim>\<open>constructor\<close> is not a key of
  \<^verbatim>\<open>weights\<close>, so the claim asks for the weight 0 and the cascade potential 0. The
  property read finds \<^verbatim>\<open>Object.prototype.constructor\<close>, a function, which is truthy:
  \<open>semanticWeight\<close> is that function and \<open>cascadePotential\<close> is NaN.
\<close>

theorem calculateCascade_inherited_member:
  "map_of weights ''constructor'' = None
   \<and> calculateCascade \<lparr>ev_type = ''constructor''\<rparr>
       = \<lparr>semanticWeight = Member, cascadePotential = NaN, priority = ''MONITOR''\<rparr>"
  by (simp add: weights_def calculateCascade_def scoreEvent_def get_property_def
      object_prototype_members_def)

section \<open>Profit estimator: properties\<close>

lemma strategy_rate_pos: "0 < strategy_rate strategy"
  by (simp add: strategy_rate_def strategyProfits_def)

lemma strategyProfit_rate:
  assumes "strategy \<notin> set object_prototype_members"
  shows "strategyProfit strategy = Some (strategy_rate strategy)"
  using assms strategy_rate_pos [of strategy]
  by (auto simp: strategyProfit_def get_property_def or_default_def strategy_rate_def
      split: option.splits)

lemma or_default_zero: "or_default x 0 = (case x of None \<Rightarrow> 0 | Some c \<Rightarrow> c)"
  by (simp add: or_default_def split: option.splits)

lemma foldl_max_Max:
  fixes f :: "'a \<Rightarrow> real"
  shows "foldl (\<lambda>m x. max m (f x)) a xs = Max (insert a (f ` set xs))"
proof (induction xs arbitrary: a)
  case Nil
  then show ?case by simp
next
  case (Cons x xs)
  have "Max (insert (max a (f x)) (f ` set xs)) = Max (insert a (insert (f x) (f ` set xs)))"
    by (cases "xs = []") (simp_all add: max.assoc)
  with Cons show ?case by simp
qed

lemma foldl_js_max:
  assumes "set strats \<inter> set object_prototype_members = {}"
  shows "foldl (\<lambda>m strategy. js_max m (strategyProfit strategy)) (Some a) strats
           = Some (foldl (\<lambda>m strategy. max m (strategy_rate strategy)) a strats)"
  using assms
proof (induction strats arbitrary: a)
  case Nil
  then show ?case by simp
next
  case (Cons strategy strats)
  have "strategy \<notin> set object_prototype_members" using Cons.prems by simp
  then have "js_max (Some a) (strategyProfit strategy) = Some (max a (strategy_rate strategy))"
    by (simp add: strategyProfit_rate js_max_def)
  moreover have "set strats \<inter> set object_prototype_members = {}" using Cons.prems by simp
  ultimately show ?case using Cons.IH by simp
qed

lemma maxStrategyProfit_Max:
  assumes "set strats \<inter> set object_prototype_members = {}"
  shows "maxStrategyProfit strats = Some (Max (insert 0 (strategy_rate ` set strats)))"
  unfolding maxStrategyProfit_def foldl_js_max [OF assms] foldl_max_Max ..

text \<open>
  The estimate for a venue with a chain modifier and a route none of whose strategies
  names a member of \<^verbatim>\<open>Object.prototype\<close>: \<open>weight / 10\<close> times the chain modifier,
  times the largest profit rate among the route's strategies (0.01 for a strategy that is
  not configured, and 0 for a route without strategies), times the cascade multiplier.
\<close>

lemma estimate_formula:
  assumes "map_of chainModifiers chainName = Some chainModifier"
      and "set (strategies route) \<inter> set object_prototype_members = {}"
  shows "calculateExpectedProfit signal chainName route =
           Some ((weight signal / 10) * chainModifier
                 * Max (insert 0 (strategy_rate ` set (strategies route)))
                 * (1 + signal_cascade signal / 100))"
  using assms(1)
  by (simp add: calculateExpectedProfit_def get_property_def maxStrategyProfit_Max [OF assms(2)]
      or_default_zero signal_cascade_def)

lemma test_max: "maxStrategyProfit [''liquidation'', ''flashloan''] = Some 0.08"
  by (simp add: maxStrategyProfit_def strategyProfit_def get_property_def strategyProfits_def
      or_default_def js_max_def)

lemma test_profit:
  "calculateExpectedProfit testSignal ''ethereum'' liquidation_route
     = Some (0.95 * 1.0 * 0.08 * 1.85)"
  "calculateExpectedProfit testSignal ''arbitrum'' liquidation_route
     = Some (0.95 * 0.7 * 0.08 * 1.85)"
  by (simp_all add: calculateExpectedProfit_def get_property_def test_max chainModifiers_def
      testSignal_def liquidation_route_def or_default_def)

text \<open>
  Claim C1 at a route the code can receive. The strategy \<^verbatim>\<open>toString\<close> is not a key of
  \<^verbatim>\<open>strategyProfits\<close>, so the claim asks for the default rate 0.01, as the strategy
  \<^verbatim>\<open>newStrategy\<close> gets it. The property read finds \<^verbatim>\<open>Object.prototype.toString\<close>, a
  function, the default is skipped, \<^verbatim>\<open>Math.max\<close> gives NaN and the estimate is NaN.
\<close>

theorem calculateExpectedProfit_inherited_strategy:
  "map_of chainModifiers ''ethereum'' = Some 1.0
   \<and> map_of strategyProfits ''newStrategy'' = None
   \<and> calculateExpectedProfit testSignal ''ethereum''
         (liquidation_route\<lparr>strategies := [''newStrategy'']\<rparr>)
       = Some (0.95 * 1.0 * 0.01 * 1.85)
   \<and> map_of strategyProfits ''toString'' = None
   \<and> calculateExpectedProfit testSignal ''ethereum''
         (liquidation_route\<lparr>strategies := [''toString'']\<rparr>)
       = None"
proof -
  have m: "map_of chainModifiers ''ethereum'' = Some 1.0"
    by (simp add: chainModifiers_def)
  have n: "map_of strategyProfits ''newStrategy'' = None"
          "map_of strategyProfits ''toString'' = None"
    by (simp_all add: strategyProfits_def)
  have a: "maxStrategyProfit [''newStrategy''] = Some 0.01"
    by (simp add: maxStrategyProfit_def strategyProfit_def get_property_def n
        object_prototype_members_def js_max_def)
  have b: "maxStrategyProfit [''toString''] = None"
    by (simp add: maxStrategyProfit_def strategyProfit_def get_property_def n
        object_prototype_members_def js_max_def)
  have "calculateExpectedProfit testSignal ''ethereum''
          (liquidation_route\<lparr>strategies := [''newStrategy'']\<rparr>)
        = Some (0.95 * 1.0 * 0.01 * 1.85)"
    by (simp add: calculateExpectedProfit_def get_property_def m a testSignal_def
        or_default_def)
  moreover have "calculateExpectedProfit testSignal ''ethereum''
                   (liquidation_route\<lparr>strategies := [''toString'']\<rparr>) = None"
    by (simp add: calculateExpectedProfit_def get_property_def m b)
  ultimately show ?thesis using m n by simp
qed

section \<open>Opportunity selector: properties\<close>

lemma findOpportunities_chains:
  "map opp_chain (findOpportunities signal route cs) = filter (qualifies signal route) cs"
  by (induction cs) (auto simp: qualifies_def split: option.splits)

lemma findOpportunities_fields:
  "opp \<in> set (findOpportunities signal route cs) \<Longrightarrow>
     calculateExpectedProfit signal (opp_chain opp) route = Some (expectedProfit opp)
     \<and> minProfit route \<le> expectedProfit opp
     \<and> opp_signal opp = signal
     \<and> opp_strategies opp = strategies route
     \<and> opp_urgency opp = urgency route"
  by (induction cs) (auto split: option.splits if_splits)

text \<open>An insertion sort only looks at how the keys of its elements compare.\<close>

lemma insort_key_cong_order:
  fixes f :: "'a \<Rightarrow> 'k::linorder" and g :: "'a \<Rightarrow> 'l::linorder"
  assumes "\<And>y. y \<in> set ys \<Longrightarrow> (f x \<le> f y) = (g x \<le> g y)"
  shows "insort_key f x ys = insort_key g x ys"
  using assms by (induction ys) auto

lemma sort_key_cong_order:
  fixes f :: "'a \<Rightarrow> 'k::linorder" and g :: "'a \<Rightarrow> 'l::linorder"
  assumes "\<And>x y. x \<in> set xs \<Longrightarrow> y \<in> set xs \<Longrightarrow> (f x \<le> f y) = (g x \<le> g y)"
  shows "sort_key f xs = sort_key g xs"
  using assms
proof (induction xs)
  case Nil
  then show ?case by simp
next
  case (Cons x xs)
  have "sort_key f xs = sort_key g xs"
    using Cons by simp
  moreover have "insort_key f x (sort_key g xs) = insort_key g x (sort_key g xs)"
    by (rule insort_key_cong_order) (simp add: Cons.prems)
  ultimately show ?case by simp
qed

lemma rank_is_spec_rank:
  assumes "\<And>opp. opp \<in> set opps \<Longrightarrow> opp_urgency opp = u"
  shows "rankOpportunities opps = spec_rank opps"
  unfolding rankOpportunities_def spec_rank_def
  by (rule sort_key_cong_order) (auto simp: assms)

lemma rank_sorted:
  "sorted_wrt (\<lambda>a b. expectedProfit b \<le> expectedProfit a) (rankOpportunities opps)"
proof -
  have "sorted (map (\<lambda>opp. - expectedProfit opp) (rankOpportunities opps))"
    by (simp add: rankOpportunities_def)
  then show ?thesis
    by (simp add: sorted_map)
qed

lemma rank_stable:
  "filter (\<lambda>opp. expectedProfit opp = p) (rankOpportunities opps)
     = filter (\<lambda>opp. expectedProfit opp = p) opps"
proof -
  have "filter (\<lambda>opp. - expectedProfit opp = - p) (sort_key (\<lambda>opp. - expectedProfit opp) opps)
          = filter (\<lambda>opp. - expectedProfit opp = - p) opps"
    by (rule sort_key_stable)
  then show ?thesis by (simp add: rankOpportunities_def)
qed

lemma rank_set: "set (rankOpportunities opps) = set opps"
  by (simp add: rankOpportunities_def)

lemma rank_head_max:
  assumes "rankOpportunities opps = best # rest" and "opp \<in> set opps"
  shows "expectedProfit opp \<le> expectedProfit best"
proof -
  have "opp \<in> set (best # rest)" using assms rank_set [of opps] by simp
  moreover have "sorted_wrt (\<lambda>a b. expectedProfit b \<le> expectedProfit a) (best # rest)"
    using rank_sorted [of opps] assms(1) by simp
  ultimately show ?thesis by auto
qed

lemma test_route: "signalRoutes new_router (sig_type testSignal) = Some liquidation_route"
  by (simp add: new_router_def constructor_routes_def testSignal_def liquidation_route_def)

lemma test_candidates:
  "findOpportunities testSignal liquidation_route (chains liquidation_route)
     = [venue_opportunity ''ethereum'' (0.95 * 1.0 * 0.08 * 1.85),
        venue_opportunity ''arbitrum'' (0.95 * 0.7 * 0.08 * 1.85)]"
proof -
  have c: "chains liquidation_route = [''ethereum'', ''arbitrum'']"
       "minProfit liquidation_route = 0.05"
       "strategies liquidation_route = [''liquidation'', ''flashloan'']"
       "urgency liquidation_route = ''immediate''"
    by (simp_all add: liquidation_route_def)
  show ?thesis
    unfolding c(1) by (simp add: test_profit c venue_opportunity_def)
qed

lemma test_ranked:
  "rankOpportunities (findOpportunities testSignal liquidation_route (chains liquidation_route))
     = [venue_opportunity ''ethereum'' (0.95 * 1.0 * 0.08 * 1.85),
        venue_opportunity ''arbitrum'' (0.95 * 0.7 * 0.08 * 1.85)]"
  unfolding test_candidates by (simp add: rankOpportunities_def venue_opportunity_def)

lemma test_chain_cfg:
  "router_chains new_router ''ethereum''
     = Some \<lparr>rpc = ethereum_rpc, chainId = 1, blockTime = 12,
             mevStrategies = [''liquidation'', ''sandwich'', ''arbitrage'']\<rparr>"
  by (simp add: new_router_def constructor_chains_def ethereum_rpc_def)

lemma test_execute:
  "executeStrategy env new_router (venue_opportunity ''ethereum'' p)
     = (case executeLiquidation env (venue_opportunity ''ethereum'' p) (Some ethereum_rpc) of
          Inr result \<Rightarrow> Inr result
        | Inl (Thrown message) \<Rightarrow>
            Inr \<lparr>success = False, profit = 0, txHash = None, gasUsed = None,
                 error = message\<rparr>
        | Inl ThrownNull \<Rightarrow>
            Inl (Thrown (Some
              ''TypeError: Cannot read properties of null (reading 'message')''))
        | Inl ThrownUndefined \<Rightarrow>
            Inl (Thrown (Some
              ''TypeError: Cannot read properties of undefined (reading 'message')'')))"
proof -
  have "get_property (router_chains new_router) (opp_chain (venue_opportunity ''ethereum'' p))
          = Own \<lparr>rpc = ethereum_rpc, chainId = 1, blockTime = 12,
                 mevStrategies = [''liquidation'', ''sandwich'', ''arbitrage'']\<rparr>"
    by (simp add: get_property_def venue_opportunity_def test_chain_cfg)
  then show ?thesis
    by (simp add: executeStrategy_def invokeStrategy_def venue_opportunity_def)
qed

text \<open>
  Claim C2. For a signal whose type has a route, the candidates are the venues of the route
  whose expected profit is not below \<open>minProfit\<close>, each carrying its estimate and the
  route's urgency; they are ranked by expected profit descending, ties by urgency and then
  by declaration order (the ranking of the code is the ranking of the specification, it is
  sorted, and equal profits keep their declaration order); with no candidate the result is
  \<^verbatim>\<open>null\<close>, otherwise the first of the ranking, whose profit no candidate exceeds, is
  executed. For the signal LIQUIDATION_THRESHOLD_BREACH with weight 9.5 and cascade
  potential 85, both venues qualify and ethereum (0.95 x 1.0 x 0.08 x 1.85) is ranked
  before arbitrum (0.95 x 0.7 x 0.08 x 1.85).
\<close>

theorem routeSignal_selects_best:
  assumes "signalRoutes r (sig_type signal) = Some route"
  shows "map opp_chain (findOpportunities signal route (chains route))
           = filter (qualifies signal route) (chains route)
     \<and> (\<forall>opp \<in> set (findOpportunities signal route (chains route)).
           calculateExpectedProfit signal (opp_chain opp) route = Some (expectedProfit opp)
           \<and> opp_urgency opp = urgency route)
     \<and> rankOpportunities (findOpportunities signal route (chains route))
           = spec_rank (findOpportunities signal route (chains route))
     \<and> sorted_wrt (\<lambda>a b. expectedProfit b \<le> expectedProfit a)
           (rankOpportunities (findOpportunities signal route (chains route)))
     \<and> (\<forall>p. filter (\<lambda>opp. expectedProfit opp = p)
                (rankOpportunities (findOpportunities signal route (chains route)))
              = filter (\<lambda>opp. expectedProfit opp = p)
                (findOpportunities signal route (chains route)))
     \<and> (case rankOpportunities (findOpportunities signal route (chains route)) of
           [] \<Rightarrow> routeSignal env now r signal = Inr (None, r)
         | best # rest \<Rightarrow>
             (\<forall>opp \<in> set (findOpportunities signal route (chains route)).
                expectedProfit opp \<le> expectedProfit best)
             \<and> routeSignal env now r signal =
                 (case executeStrategy env r best of
                    Inl exn \<Rightarrow> Inl exn
                  | Inr result \<Rightarrow> Inr (Some result, trackAttribution now r signal result)))
     \<and> signalRoutes new_router (sig_type testSignal) = Some liquidation_route
     \<and> rankOpportunities
           (findOpportunities testSignal liquidation_route (chains liquidation_route))
           = [venue_opportunity ''ethereum'' (0.95 * 1.0 * 0.08 * 1.85),
              venue_opportunity ''arbitrum'' (0.95 * 0.7 * 0.08 * 1.85)]"
proof -
  let ?cands = "findOpportunities signal route (chains route)"
  have urg: "\<And>opp. opp \<in> set ?cands \<Longrightarrow> opp_urgency opp = urgency route"
    using findOpportunities_fields by blast
  have 1: "map opp_chain ?cands = filter (qualifies signal route) (chains route)"
    by (rule findOpportunities_chains)
  have 2: "\<forall>opp \<in> set ?cands.
             calculateExpectedProfit signal (opp_chain opp) route = Some (expectedProfit opp)
             \<and> opp_urgency opp = urgency route"
    using findOpportunities_fields by blast
  have 3: "rankOpportunities ?cands = spec_rank ?cands"
    using urg by (rule rank_is_spec_rank)
  have 4: "sorted_wrt (\<lambda>a b. expectedProfit b \<le> expectedProfit a) (rankOpportunities ?cands)"
    by (rule rank_sorted)
  have 5: "\<forall>p. filter (\<lambda>opp. expectedProfit opp = p) (rankOpportunities ?cands)
              = filter (\<lambda>opp. expectedProfit opp = p) ?cands"
    by (simp add: rank_stable)
  have 6: "case rankOpportunities ?cands of
           [] \<Rightarrow> routeSignal env now r signal = Inr (None, r)
         | best # rest \<Rightarrow>
             (\<forall>opp \<in> set ?cands. expectedProfit opp \<le> expectedProfit best)
             \<and> routeSignal env now r signal =
                 (case executeStrategy env r best of
                    Inl exn \<Rightarrow> Inl exn
                  | Inr result \<Rightarrow> Inr (Some result, trackAttribution now r signal result))"
  proof (cases "rankOpportunities ?cands")
    case Nil
    then show ?thesis using assms by (simp add: routeSignal_def get_property_def)
  next
    case (Cons best rest)
    have "\<forall>opp \<in> set ?cands. expectedProfit opp \<le> expectedProfit best"
      using rank_head_max [OF Cons] by blast
    then show ?thesis using assms Cons by (simp add: routeSignal_def get_property_def)
  qed
  from 1 2 3 4 5 6 test_route test_ranked show ?thesis by blast
qed

theorem routeSignal_selects_best_witness:
  "signalRoutes new_router (sig_type testSignal) = Some liquidation_route
   \<and> map opp_chain (findOpportunities testSignal liquidation_route (chains liquidation_route))
       = [''ethereum'', ''arbitrum'']
   \<and> executeStrategy demo_env new_router
         (venue_opportunity ''ethereum'' (0.95 * 1.0 * 0.08 * 1.85)) = Inr demo_result
   \<and> routeSignal demo_env 7 new_router testSignal
       = Inr (Some demo_result, trackAttribution 7 new_router testSignal demo_result)"
proof -
  note t = routeSignal_selects_best [OF test_route, of demo_env 7]
  have r: "rankOpportunities
             (findOpportunities testSignal liquidation_route (chains liquidation_route))
           = [venue_opportunity ''ethereum'' (0.95 * 1.0 * 0.08 * 1.85),
              venue_opportunity ''arbitrum'' (0.95 * 0.7 * 0.08 * 1.85)]"
    using t by blast
  have e: "executeStrategy demo_env new_router
             (venue_opportunity ''ethereum'' (0.95 * 1.0 * 0.08 * 1.85)) = Inr demo_result"
    unfolding test_execute by (simp add: demo_env_def)
  have "routeSignal demo_env 7 new_router testSignal =
          (case executeStrategy demo_env new_router
                  (venue_opportunity ''ethereum'' (0.95 * 1.0 * 0.08 * 1.85)) of
             Inl exn \<Rightarrow> Inl exn
           | Inr result \<Rightarrow> Inr (Some result, trackAttribution 7 new_router testSignal result))"
    using t unfolding r by simp
  then have "routeSignal demo_env 7 new_router testSignal
               = Inr (Some demo_result, trackAttribution 7 new_router testSignal demo_result)"
    unfolding e by simp
  moreover have
    "map opp_chain (findOpportunities testSignal liquidation_route (chains liquidation_route))
       = [''ethereum'', ''arbitrum'']"
    by (simp add: test_candidates venue_opportunity_def)
  ultimately show ?thesis using test_route e by simp
qed

section \<open>Router: a signal type without a route\<close>

text \<open>
  A type that is neither a key of the routing table nor the name of a member of
  \<^verbatim>\<open>Object.prototype\<close> gets \<^verbatim>\<open>null\<close>, and the router is as before the call.
\<close>

lemma routeSignal_absent_type:
  assumes "signalRoutes r (sig_type signal) = None"
      and "sig_type signal \<notin> set object_prototype_members"
  shows "routeSignal env now r signal = Inr (None, r)"
  using assms by (simp add: routeSignal_def get_property_def)

lemma routeSignal_UNKNOWN:
  "routeSignal env now new_router unknownSignal = Inr (None, new_router)"
proof -
  have "signalRoutes new_router (sig_type unknownSignal) = None"
    by (simp add: new_router_def constructor_routes_def unknownSignal_def)
  moreover have "sig_type unknownSignal \<notin> set object_prototype_members"
    by (simp add: unknownSignal_def object_prototype_members_def)
  ultimately show ?thesis by (rule routeSignal_absent_type)
qed

text \<open>
  Claim C5 at a signal the code can receive. The type \<^verbatim>\<open>constructor\<close> has no entry in
  the routing table, so the claim asks for \<^verbatim>\<open>null\<close> and no error. The property read
  finds \<^verbatim>\<open>Object.prototype.constructor\<close>, the guard \<^verbatim>\<open>if (!route)\<close> is passed, and
  \<^verbatim>\<open>route.chains.join\<close> raises a TypeError that leaves \<^verbatim>\<open>routeSignal\<close>.
\<close>

theorem routeSignal_inherited_type_throws:
  "signalRoutes new_router (sig_type constructorSignal) = None
   \<and> routeSignal demo_env 7 new_router constructorSignal
       = Inl (Thrown (Some
           ''TypeError: Cannot read properties of undefined (reading 'join')''))"
proof -
  have "signalRoutes new_router (sig_type constructorSignal) = None"
    by (simp add: new_router_def constructor_routes_def constructorSignal_def)
  moreover have "sig_type constructorSignal \<in> set object_prototype_members"
    by (simp add: constructorSignal_def object_prototype_members_def)
  ultimately show ?thesis
    by (simp add: routeSignal_def get_property_def)
qed

section \<open>Execution dispatcher: failures are data\<close>

text \<open>
  A thrown value whose \<^verbatim>\<open>message\<close> can be read is caught: on a configured venue the
  result has \<open>success = False\<close>, \<open>profit = 0\<close> and that message as \<open>error\<close>.
\<close>

lemma executeStrategy_catches:
  assumes "router_chains r (opp_chain opportunity) = Some cfg"
      and "invokeStrategy env opportunity (Some (rpc cfg)) = Inl (Thrown message)"
  shows "executeStrategy env r opportunity =
           Inr \<lparr>success = False, profit = 0, txHash = None, gasUsed = None,
                error = message\<rparr>"
  using assms by (simp add: executeStrategy_def get_property_def)




section \<open>Router: what is recorded after an execution\<close>

lemma failing_route:
  "routeSignal failing_env now new_router testSignal = Inr (Some failed_result, new_router)"
proof -
  have "routeSignal failing_env now new_router testSignal
          = (case executeStrategy failing_env new_router
                  (venue_opportunity ''ethereum'' (0.95 * 1.0 * 0.08 * 1.85)) of
             Inl exn \<Rightarrow> Inl exn
           | Inr result \<Rightarrow> Inr (Some result, trackAttribution now new_router testSignal result))"
    by (simp add: routeSignal_def get_property_def test_route test_ranked)
  also have "\<dots> = Inr (Some failed_result, new_router)"
    unfolding test_execute
    by (simp add: failing_env_def failed_result_def trackAttribution_def)
  finally show ?thesis .
qed

lemma trackAttribution_success:
  assumes "success result"
  shows "map_of (attributionMap (trackAttribution now r signal result)) (txHash result)
           = Some (attribution_of now signal result)
         \<and> emitted (trackAttribution now r signal result)
           = emitted r @ [attribution_of now signal result]"
  using assms by (simp add: trackAttribution_def Let_def attribution_of_def update_conv')

text \<open>
  Claim C8, as the code has it. \<^verbatim>\<open>trackAttribution\<close> returns at once for a result with
  \<open>success = False\<close>: after routing a signal whose execution fails, the failure is
  returned to the caller and the router's attribution state is exactly as before the call.
  Only a successful result is recorded, under its \<^verbatim>\<open>txHash\<close>, and emitted.
\<close>

theorem failed_execution_not_recorded:
  assumes "routeSignal env now r signal = Inr (Some result, r')"
  shows "(\<not> success result \<longrightarrow> r' = r)
       \<and> (success result \<longrightarrow>
            map_of (attributionMap r') (txHash result) = Some (attribution_of now signal result)
            \<and> emitted r' = emitted r @ [attribution_of now signal result])"
proof -
  have "r' = trackAttribution now r signal result"
    using assms
    by (auto simp: routeSignal_def split: property.splits list.splits sum.splits)
  then show ?thesis
    using trackAttribution_success [of result now r signal]
    by (auto simp: trackAttribution_def)
qed

theorem failed_execution_not_recorded_witness:
  "routeSignal failing_env 7 new_router testSignal = Inr (Some failed_result, new_router)
   \<and> \<not> success failed_result
   \<and> new_router = new_router"
  using failed_execution_not_recorded
          [of failing_env 7 new_router testSignal failed_result new_router]
    failing_route [of 7]
  by (simp add: failed_result_def)

text \<open>
  The claim as stated fails: every venue call of \<open>failing_env\<close> throws, the routed signal
  gets the failed result, and the router holds no record of it afterwards.
\<close>

theorem failure_recorded_counterexample:
  "routeSignal failing_env 7 new_router testSignal = Inr (Some failed_result, new_router)
   \<and> \<not> success failed_result
   \<and> attributionMap new_router = []
   \<and> profitsBySignal new_router = []
   \<and> emitted new_router = []"
  using failing_route [of 7] by (simp add: failed_result_def new_router_def)

section \<open>Attribution ledger: the effect of one call\<close>

lemma map_of_update:
  "map_of (AList.update k v al) k' = (if k' = k then Some v else map_of al k')"
  by (simp add: update_conv')

lemma status_of_recordEvent:
  "status_of (recordEvent now l signalId eventData) k =
     (if k = signalId \<and> map_of (ledger_chains l) signalId \<noteq> None then
        (if ed_type eventData = ''BOT_RESPONSE'' then Some TRIGGERED
         else if ed_type eventData = ''LIQUIDATION_EXECUTED'' then Some PROFITABLE
         else status_of l signalId)
      else status_of l k)"
  by (auto simp: status_of_def recordEvent_def Let_def map_of_update split: option.splits)

lemma ledger_chains_save:
  "ledger_chains (snd (saveToDatabase now writable l)) = ledger_chains l"
  "ledger_profits (snd (saveToDatabase now writable l)) = ledger_profits l"
  by (simp_all add: saveToDatabase_def Let_def)

text \<open>The ledger \<^verbatim>\<open>recordProfit\<close> leaves, whether or not the write is rejected.\<close>

lemma snd_recordProfit:
  "snd (recordProfit now saved_at writable l signalId profitData) =
     (case map_of (ledger_chains l) signalId of
        None \<Rightarrow> l
      | Some chain \<Rightarrow>
          snd (saveToDatabase saved_at writable
            (l\<lparr>ledger_chains :=
                 AList.update signalId
                   (chain\<lparr>chain_profit := chain_profit chain + net_profit profitData,
                          status := COMPLETED,
                          semanticROI := Number (js_times_pos
                             (js_div (net_profit profitData) (src_weight (origin chain))) 100)\<rparr>)
                   (ledger_chains l),
               ledger_profits :=
                 AList.update (pd_txHash profitData)
                   \<lparr>pe_signalId = signalId,
                    pe_txHash = pd_txHash profitData,
                    pe_amountETH = pd_amountETH profitData,
                    pe_gasSpent = or_default (pd_gasSpent profitData) 0,
                    pe_netProfit = net_profit profitData,
                    pe_timestamp = now,
                    pe_liquidationType =
                      (case or_null (pd_type profitData) of
                         None \<Rightarrow> ''UNKNOWN'' | Some t \<Rightarrow> t)\<rparr>
                   (ledger_profits l)\<rparr>)))"
  by (simp add: recordProfit_def Let_def net_profit_def
      split: option.splits prod.splits sum.splits)

lemma status_of_recordProfit:
  "status_of (snd (recordProfit now saved_at writable l signalId profitData)) k =
     (if k = signalId \<and> map_of (ledger_chains l) signalId \<noteq> None then Some COMPLETED
      else status_of l k)"
  by (auto simp: snd_recordProfit status_of_def ledger_chains_save map_of_update
      split: option.splits)

lemma profit_of_recordProfit:
  "profit_of (snd (recordProfit now saved_at writable l signalId profitData)) k =
     (if k = signalId \<and> map_of (ledger_chains l) signalId \<noteq> None
      then map_option (\<lambda>p. p + net_profit profitData) (profit_of l signalId)
      else profit_of l k)"
  by (auto simp: snd_recordProfit profit_of_def ledger_chains_save map_of_update
      split: option.splits)

lemma profits_keys_recordProfit:
  "map_of (ledger_chains l) signalId \<noteq> None \<Longrightarrow>
   map fst (ledger_profits (snd (recordProfit now saved_at writable l signalId profitData))) =
     (if pd_txHash profitData \<in> set (map fst (ledger_profits l))
      then map fst (ledger_profits l)
      else map fst (ledger_profits l) @ [pd_txHash profitData])"
  by (auto simp: snd_recordProfit ledger_chains_save update_keys split: option.splits)

lemma example_ledger_chains: "ledger_chains example_ledger = [(''SIG-1'', example_chain)]"
  by (simp add: example_ledger_def tagJAM_def Let_def new_ledger_def example_chain_def
      example_source_def or_null_def)

lemma example_facts:
  "map_of (ledger_chains example_ledger) ''SIG-1'' = Some example_chain"
  "map_of (ledger_chains example_ledger) ''SIG-1'' \<noteq> None"
  "status_of example_ledger ''SIG-1'' = Some BROADCASTED"
  "profit_of example_ledger ''SIG-1'' = Some 0"
  by (simp_all add: example_ledger_chains status_of_def profit_of_def example_chain_def)

section \<open>Attribution ledger: status transitions\<close>

lemma status_step:
  assumes "status_of l signalId = Some s" and "s \<noteq> BROADCASTED"
  shows "\<exists>s'. status_of (apply_call l call) signalId = Some s' \<and> s' \<noteq> BROADCASTED"
  using assms
  by (cases call) (auto simp: status_of_recordEvent status_of_recordProfit)

lemma status_run:
  assumes "status_of l signalId = Some s" and "s \<noteq> BROADCASTED"
  shows "\<exists>s'. status_of (run_calls l calls) signalId = Some s' \<and> s' \<noteq> BROADCASTED"
  using assms
proof (induction calls arbitrary: l s)
  case Nil
  then show ?case by (simp add: run_calls_def)
next
  case (Cons call calls)
  obtain s1 where "status_of (apply_call l call) signalId = Some s1" "s1 \<noteq> BROADCASTED"
    using status_step [OF Cons.prems] by blast
  then show ?case
    using Cons.IH [of "apply_call l call" s1] by (simp add: run_calls_def)
qed

lemma example_statuses:
  "status_of (snd (recordProfit 2000 2001 True example_ledger ''SIG-1'' example_profit))
     ''SIG-1'' = Some COMPLETED"
  "status_of (recordEvent 3000
       (snd (recordProfit 2000 2001 True example_ledger ''SIG-1'' example_profit))
       ''SIG-1'' bot_response) ''SIG-1'' = Some TRIGGERED"
proof -
  let ?l1 = "snd (recordProfit 2000 2001 True example_ledger ''SIG-1'' example_profit)"
  show s1: "status_of ?l1 ''SIG-1'' = Some COMPLETED"
    by (simp add: status_of_recordProfit example_facts)
  then have "map_of (ledger_chains ?l1) ''SIG-1'' \<noteq> None"
    by (auto simp: status_of_def)
  then show "status_of (recordEvent 3000 ?l1 ''SIG-1'' bot_response) ''SIG-1'' = Some TRIGGERED"
    by (simp add: status_of_recordEvent bot_response_def)
qed

text \<open>
  Claim C3, as the code has it. The status a call leaves depends on the call alone:
  \<^verbatim>\<open>recordProfit\<close> sets Completed, \<^verbatim>\<open>recordEvent\<close> sets Triggered for a BOT_RESPONSE
  event and Profitable for a LIQUIDATION_EXECUTED event, whatever the status was, and
  leaves it for any other event. So no sequence of calls brings a chain back to
  Broadcasted once it has left it (and none sets Failed), but the order among Triggered,
  Profitable and Completed is not kept.
\<close>

theorem status_set_by_call:
  assumes "status_of l signalId = Some s"
  shows "status_of (snd (recordProfit now saved_at writable l signalId profitData)) signalId
           = Some COMPLETED
       \<and> status_of (recordEvent now l signalId eventData) signalId
           = Some (if ed_type eventData = ''BOT_RESPONSE'' then TRIGGERED
                   else if ed_type eventData = ''LIQUIDATION_EXECUTED'' then PROFITABLE
                   else s)
       \<and> (s \<noteq> BROADCASTED \<longrightarrow>
            (\<exists>s'. status_of (run_calls l calls) signalId = Some s' \<and> s' \<noteq> BROADCASTED))"
proof -
  have c: "map_of (ledger_chains l) signalId \<noteq> None"
    using assms by (auto simp: status_of_def)
  have "status_of (snd (recordProfit now saved_at writable l signalId profitData)) signalId
          = Some COMPLETED"
    using c by (simp add: status_of_recordProfit)
  moreover have "status_of (recordEvent now l signalId eventData) signalId
           = Some (if ed_type eventData = ''BOT_RESPONSE'' then TRIGGERED
                   else if ed_type eventData = ''LIQUIDATION_EXECUTED'' then PROFITABLE
                   else s)"
    using c assms by (simp add: status_of_recordEvent)
  ultimately show ?thesis using status_run [OF assms] by blast
qed

theorem status_set_by_call_witness:
  "status_of (snd (recordProfit 2000 2001 True example_ledger ''SIG-1'' example_profit))
     ''SIG-1'' = Some COMPLETED
   \<and> COMPLETED \<noteq> BROADCASTED
   \<and> status_of (recordEvent 3000
        (snd (recordProfit 2000 2001 True example_ledger ''SIG-1'' example_profit))
        ''SIG-1'' bot_response) ''SIG-1'' = Some TRIGGERED
   \<and> (\<exists>s'. status_of (run_calls
               (snd (recordProfit 2000 2001 True example_ledger ''SIG-1'' example_profit))
               [RecordEvent 3000 ''SIG-1'' bot_response]) ''SIG-1'' = Some s'
            \<and> s' \<noteq> BROADCASTED)"
  using status_set_by_call [OF example_statuses(1), of 3000 3001 True example_profit
          bot_response "[RecordEvent 3000 ''SIG-1'' bot_response]"]
    example_statuses(1)
  by (simp add: bot_response_def)

text \<open>
  The claim as stated fails: a profit is recorded on a tagged chain, which completes it,
  and a BOT_RESPONSE event recorded afterwards moves the chain back to Triggered.
\<close>

theorem status_regresses_counterexample:
  "status_of (run_calls example_ledger [RecordProfit 2000 2001 True ''SIG-1'' example_profit])
     ''SIG-1'' = Some COMPLETED
   \<and> status_of (run_calls example_ledger
        [RecordProfit 2000 2001 True ''SIG-1'' example_profit,
         RecordEvent 3000 ''SIG-1'' bot_response]) ''SIG-1'' = Some TRIGGERED
   \<and> status_rank TRIGGERED < status_rank COMPLETED"
  using example_statuses by (simp add: run_calls_def)

section \<open>Attribution ledger: recording a profit twice\<close>

lemma example_profits:
  "profit_of (snd (recordProfit 2000 2001 True example_ledger ''SIG-1'' example_profit))
     ''SIG-1'' = Some 0.4"
  "profit_of (snd (recordProfit 3000 3001 True
        (snd (recordProfit 2000 2001 True example_ledger ''SIG-1'' example_profit))
        ''SIG-1'' example_profit)) ''SIG-1''
     = Some 0.8"
proof -
  let ?l1 = "snd (recordProfit 2000 2001 True example_ledger ''SIG-1'' example_profit)"
  have n: "net_profit example_profit = 0.4"
    by (simp add: net_profit_def example_profit_def or_default_def)
  show p1: "profit_of ?l1 ''SIG-1'' = Some 0.4"
    by (simp add: profit_of_recordProfit example_facts n)
  then have "map_of (ledger_chains ?l1) ''SIG-1'' \<noteq> None"
    by (auto simp: profit_of_def)
  then show "profit_of (snd (recordProfit 3000 3001 True ?l1 ''SIG-1'' example_profit)) ''SIG-1''
               = Some 0.8"
    using p1 by (simp add: profit_of_recordProfit n)
qed

text \<open>
  Claim C4, as the code has it. \<^verbatim>\<open>recordProfit\<close> adds the net profit to the chain's total
  at every call: recording the same \<^verbatim>\<open>txHash\<close> twice for a chain counts the net profit
  twice. Only the profits map, keyed by \<^verbatim>\<open>txHash\<close>, gets no second entry.
\<close>

theorem recordProfit_twice_counts_twice:
  assumes "map_of (ledger_chains l) signalId = Some chain"
  shows "profit_of (snd (recordProfit t1 s1 w1 l signalId profitData)) signalId
           = Some (chain_profit chain + net_profit profitData)
       \<and> profit_of (snd (recordProfit t2 s2 w2
             (snd (recordProfit t1 s1 w1 l signalId profitData)) signalId profitData)) signalId
           = Some (chain_profit chain + 2 * net_profit profitData)
       \<and> map fst (ledger_profits (snd (recordProfit t2 s2 w2
             (snd (recordProfit t1 s1 w1 l signalId profitData)) signalId profitData)))
           = map fst (ledger_profits (snd (recordProfit t1 s1 w1 l signalId profitData)))"
proof -
  let ?l1 = "snd (recordProfit t1 s1 w1 l signalId profitData)"
  have p0: "profit_of l signalId = Some (chain_profit chain)"
    using assms by (simp add: profit_of_def)
  have p1: "profit_of ?l1 signalId = Some (chain_profit chain + net_profit profitData)"
    using assms p0 by (simp add: profit_of_recordProfit)
  then have c1: "map_of (ledger_chains ?l1) signalId \<noteq> None"
    by (auto simp: profit_of_def)
  have p2: "profit_of (snd (recordProfit t2 s2 w2 ?l1 signalId profitData)) signalId
              = Some (chain_profit chain + 2 * net_profit profitData)"
    using c1 p1 by (simp add: profit_of_recordProfit)
  have k1: "pd_txHash profitData \<in> set (map fst (ledger_profits ?l1))"
    using assms by (auto simp: profits_keys_recordProfit)
  have "map fst (ledger_profits (snd (recordProfit t2 s2 w2 ?l1 signalId profitData)))
          = map fst (ledger_profits ?l1)"
    using profits_keys_recordProfit [OF c1, of t2 s2 w2 profitData] k1 by simp
  with p1 p2 show ?thesis by blast
qed

theorem recordProfit_twice_counts_twice_witness:
  "map_of (ledger_chains example_ledger) ''SIG-1'' = Some example_chain
   \<and> profit_of (snd (recordProfit 2000 2001 True example_ledger ''SIG-1'' example_profit))
       ''SIG-1'' = Some 0.4
   \<and> profit_of (snd (recordProfit 3000 3001 True
        (snd (recordProfit 2000 2001 True example_ledger ''SIG-1'' example_profit))
        ''SIG-1'' example_profit)) ''SIG-1''
     = Some 0.8"
proof -
  have z: "chain_profit example_chain = 0"
    by (simp add: example_chain_def)
  have n: "net_profit example_profit = 0.4"
    by (simp add: net_profit_def example_profit_def or_default_def)
  show ?thesis
    using recordProfit_twice_counts_twice
            [OF example_facts(1), of 2000 2001 True example_profit 3000 3001 True]
      z n example_facts(1)
    by simp
qed

text \<open>
  The claim as stated fails: after the second recording of the same \<^verbatim>\<open>txHash\<close> the
  chain's total is not what it was after the first.
\<close>

theorem profit_deduplicated_counterexample:
  "profit_of (snd (recordProfit 3000 3001 True
        (snd (recordProfit 2000 2001 True example_ledger ''SIG-1'' example_profit))
        ''SIG-1'' example_profit)) ''SIG-1''
     \<noteq> profit_of (snd (recordProfit 2000 2001 True example_ledger ''SIG-1'' example_profit))
          ''SIG-1''"
  by (simp add: example_profits)

section \<open>Attribution ledger: a profit for an unknown chain\<close>

text \<open>
  Claim C10. For every identifier with no chain in the ledger, \<^verbatim>\<open>recordProfit\<close> returns
  nothing and leaves the ledger as it was: the chains, the profits map and the file are
  unchanged.
\<close>

theorem recordProfit_unknown_chain:
  assumes "map_of (ledger_chains l) signalId = None"
  shows "recordProfit now saved_at writable l signalId profitData = (Inr None, l)"
  using assms by (simp add: recordProfit_def)

theorem recordProfit_unknown_chain_witness:
  "map_of (ledger_chains example_ledger) ''SIG-404'' = None
   \<and> recordProfit 2000 2001 True example_ledger ''SIG-404'' example_profit
       = (Inr None, example_ledger)"
proof -
  have n: "map_of (ledger_chains example_ledger) ''SIG-404'' = None"
    by (simp add: example_ledger_chains)
  from recordProfit_unknown_chain [OF n] n show ?thesis by simp
qed

section \<open>Attribution ledger: persistence\<close>

lemma spam_ledger_chains: "ledger_chains spam_ledger = [(''SIG-0'', spam_chain)]"
  by (simp add: spam_ledger_def snd_recordProfit tagJAM_def Let_def new_ledger_def
      ledger_chains_save spam_chain_def spam_source_def net_profit_def example_profit_def
      or_default_def or_null_def js_div_def)

text \<open>
  Claim C6 at a ledger the code can reach. A signal of weight 0 is tagged and a profit is
  recorded for it: the chain's \<open>semanticROI\<close> is \<open>0.4 / 0 * 100\<close>, which is Infinity.
  \<^verbatim>\<open>JSON.stringify\<close> writes \<^verbatim>\<open>null\<close> for it, so the chain that is loaded back differs
  from the one that was saved.
\<close>

theorem roundtrip_loses_infinite_roi:
  "ledger_chains spam_ledger = [(''SIG-0'', spam_chain)]
   \<and> semanticROI spam_chain = Number PosInfinity
   \<and> ledger_chains (loadFromDatabase (snd (saveToDatabase 5000 True spam_ledger)))
       = [(''SIG-0'', spam_chain\<lparr>semanticROI := Null\<rparr>)]
   \<and> ledger_chains (loadFromDatabase (snd (saveToDatabase 5000 True spam_ledger)))
       \<noteq> ledger_chains spam_ledger"
proof -
  have r: "semanticROI spam_chain = Number PosInfinity"
    by (simp add: spam_chain_def)
  have "ledger_chains (loadFromDatabase (snd (saveToDatabase 5000 True spam_ledger)))
          = [(''SIG-0'', spam_chain\<lparr>semanticROI := Null\<rparr>)]"
    by (simp add: loadFromDatabase_def saveToDatabase_def Let_def spam_ledger_chains
        new_Map_def json_chain_def spam_chain_def)
  moreover have "spam_chain\<lparr>semanticROI := Null\<rparr> \<noteq> spam_chain"
    by (simp add: spam_chain_def)
  ultimately show ?thesis using r spam_ledger_chains by simp
qed

end
